theory Spec2Isabelle
  imports Main "HOL-Library.AList"
begin

section \<open>The prompt loader of langchain/prompts/loading.py\<close>

text \<open>
  A shallow embedding of \<^verbatim>\<open>src/langchain/prompts/loading.py\<close>. A Python dictionary is an
  association list with string keys: lookup is \<open>map_of\<close>, \<^verbatim>\<open>d.pop(k)\<close> is \<open>AList.delete\<close>,
  \<^verbatim>\<open>d[k] = v\<close> is \<open>AList.update\<close> (an existing key keeps its place, a new one is appended,
  as in Python). Every \<^verbatim>\<open>raise\<close> is a value of the type \<open>error\<close>. A function of the source
  whose name starts with an underscore is written with the prefix \<open>p_\<close>
  (\<^verbatim>\<open>_load_template\<close> is \<open>p_load_template\<close>).
\<close>

subsection \<open>Values, errors and the outside world\<close>

text \<open>
  The classes whose constructors the loader calls. They live in
  \<^verbatim>\<open>langchain.prompts.prompt\<close>, \<^verbatim>\<open>langchain.prompts.few_shot\<close> and
  \<^verbatim>\<open>langchain.prompts.base\<close>, outside the loader. An object is represented by its class and
  the keyword arguments its constructor was called with.
\<close>

datatype cls = PromptTemplate | FewShotPromptTemplate | RegexParser

text \<open>
  Python values: what \<^verbatim>\<open>json.load\<close> and \<^verbatim>\<open>yaml.safe_load\<close> produce, a
  \<^verbatim>\<open>pathlib.Path\<close> (kept as the string it was built from) and the constructed objects.
  A float is never inspected by the loader; it is carried as mantissa and exponent.
\<close>

datatype pyval =
    PNone
  | PBool bool
  | PInt int
  | PFloat int int
  | PStr string
  | PPath string
  | PList "pyval list"
  | PDict "(string \<times> pyval) list"
  | PObject cls "(string \<times> pyval) list"

type_synonym dict = "(string \<times> pyval) list"

text \<open>
  The exceptions. \<open>ValueError\<close> carries its message (empty for a bare
  \<^verbatim>\<open>raise ValueError\<close>), \<open>KeyError\<close> the missing key, \<open>OSError\<close> the path that could not be
  opened. \<open>RecursionError\<close> is what Python raises when the nesting of loads exceeds the
  interpreter's limit.
\<close>

datatype error =
    ValueError string
  | KeyError string
  | TypeError
  | AttributeError
  | OSError string
  | DecodeError
  | ValidationError cls
  | RequestError
  | RecursionError
  | ExecError

text \<open>
  What the loader reads from outside itself, taken as parameters:
  the file system (\<open>files p\<close> is the text of the file at \<open>p\<close>, \<open>None\<close> when it cannot be
  opened), the two decoders (\<open>None\<close> when the text does not decode), the HTTP GET of
  \<^verbatim>\<open>requests.get\<close> (status code and body, \<open>None\<close> when the request itself raises),
  \<^verbatim>\<open>os.path.relpath\<close> (it depends on the working directory), the name that
  \<^verbatim>\<open>tempfile.TemporaryDirectory\<close> returns at a nesting depth, the value bound to
  \<^verbatim>\<open>PROMPT\<close> after a Python source text is executed, the validation each class performs on
  its keyword arguments, and Python's \<^verbatim>\<open>str()\<close> of a value that is not a string.
\<close>

record env =
  files :: "string \<Rightarrow> string option"
  json_load :: "string \<Rightarrow> pyval option"
  yaml_safe_load :: "string \<Rightarrow> pyval option"
  requests_get :: "string \<Rightarrow> (int \<times> string) option"
  relpath :: "string \<Rightarrow> string \<Rightarrow> string"
  tmpdirname :: "nat \<Rightarrow> string"
  exec_PROMPT :: "string \<Rightarrow> error + pyval"
  accepts :: "cls \<Rightarrow> dict \<Rightarrow> bool"
  repr :: "pyval \<Rightarrow> string"

definition URL_BASE :: string where
  "URL_BASE = ''https://raw.githubusercontent.com/hwchase17/langchain-hub/master/prompts/''"

subsection \<open>Strings, paths and dictionaries\<close>

text \<open>\<^verbatim>\<open>s.split(sep)\<close> for a one-character separator: never empty.\<close>

fun str_split :: "char \<Rightarrow> string \<Rightarrow> string list" where
  "str_split sep [] = [[]]"
| "str_split sep (c # cs) =
     (if c = sep then [] # str_split sep cs
      else (case str_split sep cs of
              [] \<Rightarrow> [[c]]
            | w # ws \<Rightarrow> (c # w) # ws))"

definition startswith :: "string \<Rightarrow> string \<Rightarrow> bool" where
  "startswith s p \<longleftrightarrow> take (length p) s = p"

definition endswith :: "string \<Rightarrow> string \<Rightarrow> bool" where
  "endswith s p \<longleftrightarrow> length p \<le> length s \<and> drop (length s - length p) s = p"

text \<open>
  \<^verbatim>\<open>pathlib.PurePosixPath\<close>: the parts of a path are its components between slashes, the
  empty ones and the \<^verbatim>\<open>.\<close> ones dropped; \<^verbatim>\<open>name\<close> is the last part (empty when there is
  none); \<^verbatim>\<open>suffix\<close> is \<^verbatim>\<open>name[i:]\<close> for \<^verbatim>\<open>i = name.rfind('.')\<close> when
  \<^verbatim>\<open>0 < i < len(name) - 1\<close>, and empty otherwise.
\<close>

definition path_name :: "string \<Rightarrow> string" where
  "path_name p =
     (case rev (filter (\<lambda>c. c \<noteq> [] \<and> c \<noteq> ''.'') (str_split CHR ''/'' p)) of
        [] \<Rightarrow> []
      | c # _ \<Rightarrow> c)"

definition path_suffix :: "string \<Rightarrow> string" where
  "path_suffix p =
     (let name = path_name p; ext = last (str_split CHR ''.'' name)
      in if CHR ''.'' \<in> set name \<and> ext \<noteq> [] \<and> length ext + 1 < length name
         then CHR ''.'' # ext else [])"

text \<open>\<^verbatim>\<open>Path(v)\<close>: a string or a path; anything else raises \<^verbatim>\<open>TypeError\<close>.\<close>

definition Path :: "pyval \<Rightarrow> error + string" where
  "Path v = (case v of PStr s \<Rightarrow> Inr s | PPath s \<Rightarrow> Inr s | _ \<Rightarrow> Inl TypeError)"

text \<open>\<^verbatim>\<open>k in d\<close>.\<close>

definition dict_in :: "string \<Rightarrow> dict \<Rightarrow> bool" where
  "dict_in k d \<longleftrightarrow> map_of d k \<noteq> None"

text \<open>The \<^verbatim>\<open>{...}\<close> of an f-string: a string as it is, anything else through \<open>repr\<close>.\<close>

definition format_val :: "env \<Rightarrow> pyval \<Rightarrow> string" where
  "format_val env v = (case v of PStr s \<Rightarrow> s | _ \<Rightarrow> repr env v)"

text \<open>
  \<^verbatim>\<open>C(**kwargs)\<close>: the class validates its keyword arguments and the object records them.
\<close>

definition construct :: "env \<Rightarrow> cls \<Rightarrow> dict \<Rightarrow> error + pyval" where
  "construct env c kwargs =
     (if accepts env c kwargs then Inr (PObject c kwargs) else Inl (ValidationError c))"

text \<open>\<^verbatim>\<open>isinstance(v, BasePromptTemplate)\<close>.\<close>

definition is_BasePromptTemplate :: "pyval \<Rightarrow> bool" where
  "is_BasePromptTemplate v =
     (case v of PObject c kw \<Rightarrow> c = PromptTemplate \<or> c = FewShotPromptTemplate | _ \<Rightarrow> False)"

subsection \<open>The materializers\<close>

text \<open>
  The three materializers mutate the dictionary they are given and return it. The model
  returns the dictionary as the call leaves it, together with the exception raised
  (\<open>None\<close> when the call returns), so that the state at a failure is visible.
\<close>

text \<open>\<^verbatim>\<open>_load_template\<close>, lines 30 to 49.\<close>

definition p_load_template :: "env \<Rightarrow> string \<Rightarrow> dict \<Rightarrow> dict \<times> error option" where
  "p_load_template env var_name config =
     (case map_of config (var_name @ ''_path'') of
        None \<Rightarrow> (config, None)
      | Some v \<Rightarrow>
          if dict_in var_name config
          then (config, Some (ValueError
                  (''Both `'' @ var_name @ ''_path` and `'' @ var_name @ ''` cannot be provided.'')))
          else
            (let config1 = AList.delete (var_name @ ''_path'') config
             in case Path v of
                  Inl e \<Rightarrow> (config1, Some e)
                | Inr template_path \<Rightarrow>
                    if path_suffix template_path = ''.txt''
                    then (case files env template_path of
                            None \<Rightarrow> (config1, Some (OSError template_path))
                          | Some template \<Rightarrow>
                              (AList.update var_name (PStr template) config1, None))
                    else (config1, Some (ValueError ''''))))"

text \<open>\<^verbatim>\<open>_load_examples\<close>, lines 52 to 69. The file is opened before its name is inspected.\<close>

definition p_load_examples :: "env \<Rightarrow> dict \<Rightarrow> dict \<times> error option" where
  "p_load_examples env config =
     (case map_of config ''examples'' of
        None \<Rightarrow> (config, Some (KeyError ''examples''))
      | Some v \<Rightarrow>
          (case v of
             PList xs \<Rightarrow> (config, None)
           | PStr s \<Rightarrow>
               (case files env s of
                  None \<Rightarrow> (config, Some (OSError s))
                | Some text \<Rightarrow>
                    if endswith s ''.json''
                    then (case json_load env text of
                            None \<Rightarrow> (config, Some DecodeError)
                          | Some examples \<Rightarrow> (AList.update ''examples'' examples config, None))
                    else if endswith s ''.yaml'' \<or> endswith s ''.yml''
                    then (case yaml_safe_load env text of
                            None \<Rightarrow> (config, Some DecodeError)
                          | Some examples \<Rightarrow> (AList.update ''examples'' examples config, None))
                    else (config, Some (ValueError
                            ''Invalid file format. Only json or yaml formats are supported.'')))
           | _ \<Rightarrow> (config, Some (ValueError
                       ''Invalid examples format. Only list or string are supported.''))))"

text \<open>
  \<^verbatim>\<open>_load_output_parser\<close>, lines 72 to 83. The tag is read by subscript, and the whole
  nested dictionary is passed to the constructor.
\<close>

definition p_load_output_parser :: "env \<Rightarrow> dict \<Rightarrow> dict \<times> error option" where
  "p_load_output_parser env config =
     (case map_of config ''output_parser'' of
        None \<Rightarrow> (config, None)
      | Some v \<Rightarrow>
          if v = PNone then (config, None)
          else
            (case v of
               PDict cfg \<Rightarrow>
                 (case map_of cfg ''_type'' of
                    None \<Rightarrow> (config, Some (KeyError ''_type''))
                  | Some output_parser_type \<Rightarrow>
                      if output_parser_type = PStr ''regex_parser''
                      then (case construct env RegexParser cfg of
                              Inl e \<Rightarrow> (config, Some e)
                            | Inr output_parser \<Rightarrow>
                                (AList.update ''output_parser'' output_parser config, None))
                      else (config, Some (ValueError
                              (''Unsupported output parser '' @ format_val env output_parser_type))))
             | _ \<Rightarrow> (config, Some TypeError)))"

subsection \<open>The resolver\<close>

text \<open>\<^verbatim>\<open>_load_prompt\<close>, lines 107 to 112.\<close>

definition p_load_prompt :: "env \<Rightarrow> dict \<Rightarrow> error + pyval" where
  "p_load_prompt env config =
     (case p_load_template env ''template'' config of
        (c1, Some e) \<Rightarrow> Inl e
      | (c1, None) \<Rightarrow>
          (case p_load_output_parser env c1 of
             (c2, Some e) \<Rightarrow> Inl e
           | (c2, None) \<Rightarrow> construct env PromptTemplate c2))"

text \<open>
  The test \<^verbatim>\<open>isinstance(path, str) and path.startswith("lc://prompts")\<close> of
  \<^verbatim>\<open>load_prompt\<close>: the string when it holds.
\<close>

definition hub_identifier :: "pyval \<Rightarrow> string option" where
  "hub_identifier path =
     (case path of
        PStr s \<Rightarrow> if startswith s ''lc://prompts'' then Some s else None
      | _ \<Rightarrow> None)"

text \<open>
  The first lines of \<^verbatim>\<open>_load_prompt_from_file\<close>: a string becomes a path, a path is kept,
  and any other value has no \<^verbatim>\<open>suffix\<close> attribute.
\<close>

definition as_path :: "pyval \<Rightarrow> error + string" where
  "as_path file = (case file of PStr s \<Rightarrow> Inr s | PPath s \<Rightarrow> Inr s | _ \<Rightarrow> Inl AttributeError)"

text \<open>
  The five functions that call each other: \<^verbatim>\<open>load_prompt_from_config\<close> (lines 19 to 27),
  \<^verbatim>\<open>_load_few_shot_prompt\<close> (86 to 104), \<^verbatim>\<open>load_prompt\<close> (115 to 121),
  \<^verbatim>\<open>_load_prompt_from_file\<close> (124 to 153) and \<^verbatim>\<open>_load_from_hub\<close> (156 to 169).
  A few-shot configuration loads its example prompt through \<^verbatim>\<open>load_prompt\<close> or
  \<^verbatim>\<open>load_prompt_from_config\<close>, and a file can name itself as its example prompt, so the
  nesting is bounded by the natural number \<open>n\<close>: each nested load of an example prompt uses
  one unit, and at \<open>0\<close> the nested load raises \<open>RecursionError\<close>. The dispatch itself uses
  none.

  A value that is not a dictionary has no two-argument \<^verbatim>\<open>pop\<close>: a list raises
  \<^verbatim>\<open>TypeError\<close>, anything else \<^verbatim>\<open>AttributeError\<close>. In the \<^verbatim>\<open>.py\<close> branch the test of
  line 142 cannot fire (\<^verbatim>\<open>spec_from_loader\<close> with no loader always returns a spec), and
  the execution of the source with the read of \<^verbatim>\<open>helper.PROMPT\<close> is the parameter
  \<open>exec_PROMPT\<close>. The temporary directory of \<^verbatim>\<open>_load_from_hub\<close> is visible to the nested
  load only: the environment with the temporary file is passed down and not returned.
\<close>

function load_prompt_from_config :: "env \<Rightarrow> nat \<Rightarrow> pyval \<Rightarrow> error + pyval"
  and p_load_few_shot_prompt :: "env \<Rightarrow> nat \<Rightarrow> dict \<Rightarrow> error + pyval"
  and load_prompt :: "env \<Rightarrow> nat \<Rightarrow> pyval \<Rightarrow> error + pyval"
  and p_load_prompt_from_file :: "env \<Rightarrow> nat \<Rightarrow> pyval \<Rightarrow> error + pyval"
  and p_load_from_hub :: "env \<Rightarrow> nat \<Rightarrow> string \<Rightarrow> error + pyval"
where
  "load_prompt_from_config env n v =
     (case v of
        PDict config \<Rightarrow>
          (let prompt_type = (case map_of config ''_type'' of
                                None \<Rightarrow> PStr ''prompt''
                              | Some t \<Rightarrow> t);
               config1 = AList.delete ''_type'' config
           in if prompt_type = PStr ''prompt'' then p_load_prompt env config1
              else if prompt_type = PStr ''few_shot'' then p_load_few_shot_prompt env n config1
              else Inl (ValueError ''''))
      | PList xs \<Rightarrow> Inl TypeError
      | _ \<Rightarrow> Inl AttributeError)"
| "p_load_few_shot_prompt env n config =
     (case p_load_template env ''suffix'' config of
        (c1, Some e) \<Rightarrow> Inl e
      | (c1, None) \<Rightarrow>
     (case p_load_template env ''prefix'' c1 of
        (c2, Some e) \<Rightarrow> Inl e
      | (c2, None) \<Rightarrow>
     (case (case map_of c2 ''example_prompt_path'' of
              Some path \<Rightarrow>
                if dict_in ''example_prompt'' c2
                then Inl (ValueError
                  ''Only one of example_prompt and example_prompt_path should be specified.'')
                else (case n of
                        0 \<Rightarrow> Inl RecursionError
                      | Suc m \<Rightarrow>
                          (case load_prompt env m path of
                             Inl e \<Rightarrow> Inl e
                           | Inr p \<Rightarrow>
                               Inr (AList.update ''example_prompt'' p
                                      (AList.delete ''example_prompt_path'' c2))))
            | None \<Rightarrow>
                (case map_of c2 ''example_prompt'' of
                   None \<Rightarrow> Inl (KeyError ''example_prompt'')
                 | Some ep \<Rightarrow>
                     (case n of
                        0 \<Rightarrow> Inl RecursionError
                      | Suc m \<Rightarrow>
                          (case load_prompt_from_config env m ep of
                             Inl e \<Rightarrow> Inl e
                           | Inr p \<Rightarrow> Inr (AList.update ''example_prompt'' p c2))))) of
        Inl e \<Rightarrow> Inl e
      | Inr c3 \<Rightarrow>
     (case p_load_examples env c3 of
        (c4, Some e) \<Rightarrow> Inl e
      | (c4, None) \<Rightarrow>
     (case p_load_output_parser env c4 of
        (c5, Some e) \<Rightarrow> Inl e
      | (c5, None) \<Rightarrow> construct env FewShotPromptTemplate c5)))))"
| "load_prompt env n path =
     (case hub_identifier path of
        Some s \<Rightarrow> p_load_from_hub env n (relpath env s ''lc://prompts/'')
      | None \<Rightarrow> p_load_prompt_from_file env n path)"
| "p_load_prompt_from_file env n file =
     (case as_path file of
        Inl e \<Rightarrow> Inl e
      | Inr file_path \<Rightarrow>
          if path_suffix file_path = ''.json''
          then (case files env file_path of
                  None \<Rightarrow> Inl (OSError file_path)
                | Some text \<Rightarrow>
                    (case json_load env text of
                       None \<Rightarrow> Inl DecodeError
                     | Some config \<Rightarrow> load_prompt_from_config env n config))
          else if path_suffix file_path = ''.yaml''
          then (case files env file_path of
                  None \<Rightarrow> Inl (OSError file_path)
                | Some text \<Rightarrow>
                    (case yaml_safe_load env text of
                       None \<Rightarrow> Inl DecodeError
                     | Some config \<Rightarrow> load_prompt_from_config env n config))
          else if path_suffix file_path = ''.py''
          then (case files env file_path of
                  None \<Rightarrow> Inl (OSError file_path)
                | Some source \<Rightarrow>
                    (case exec_PROMPT env source of
                       Inl e \<Rightarrow> Inl e
                     | Inr prompt \<Rightarrow>
                         if is_BasePromptTemplate prompt then Inr prompt
                         else Inl (ValueError ''Did not get object of type BasePromptTemplate.'')))
          else Inl (ValueError (''Got unsupported file type '' @ path_suffix file_path)))"
| "p_load_from_hub env n path =
     (let suffix = last (str_split CHR ''.'' path)
      in if suffix \<notin> {''py'', ''json'', ''yaml''}
         then Inl (ValueError ''Unsupported file type.'')
         else
           (let full_url = URL_BASE @ path
            in case requests_get env full_url of
                 None \<Rightarrow> Inl RequestError
               | Some (status_code, content) \<Rightarrow>
                   if status_code \<noteq> 200
                   then Inl (ValueError (''Could not find file at '' @ full_url))
                   else
                     (let file = tmpdirname env n @ ''/prompt.'' @ suffix
                      in p_load_prompt_from_file
                           (env\<lparr>files := (files env)(file \<mapsto> content)\<rparr>) n (PStr file))))"
  by pat_completeness auto
termination
  by (relation "measure (\<lambda>x. case x of
         Inl (Inl (env, n, v)) \<Rightarrow> 5 * n + 1
       | Inl (Inr (env, n, c)) \<Rightarrow> 5 * n
       | Inr (Inl (env, n, p)) \<Rightarrow> 5 * n + 4
       | Inr (Inr (Inl (env, n, f))) \<Rightarrow> 5 * n + 2
       | Inr (Inr (Inr (env, n, p))) \<Rightarrow> 5 * n + 3)") auto

subsection \<open>A concrete environment\<close>

text \<open>
  An environment to run the loader in: a few files, the decoders on their texts, a hub that
  has one prompt, and classes that accept every keyword argument.
\<close>

definition env0 :: env where
  \<open>env0 =
     \<lparr> files = (\<lambda>p. if p = ''joke.txt'' then Some ''Tell me a joke.''
                    else if p = ''examples.json'' then Some ''[1, 2]''
                    else if p = ''examples.yml'' then Some ''- 3''
                    else if p = ''notes.txt'' then Some ''[1, 2]''
                    else if p = ''prompt.json'' then Some ''{"template": "Hi"}''
                    else if p = ''prompt.yaml'' then Some ''template: Hi''
                    else None),
       json_load = (\<lambda>t. if t = ''[1, 2]'' then Some (PList [PInt 1, PInt 2])
                        else if t = ''{"template": "Hi"}''
                        then Some (PDict [(''template'', PStr ''Hi'')])
                        else None),
       yaml_safe_load = (\<lambda>t. if t = ''- 3'' then Some (PList [PInt 3])
                             else if t = ''template: Hi''
                             then Some (PDict [(''template'', PStr ''Hi'')])
                             else None),
       requests_get = (\<lambda>u. if u = URL_BASE @ ''hello/prompt.yaml''
                           then Some (200, ''template: Hi'')
                           else Some (404, ''404: Not Found'')),
       relpath = (\<lambda>p start. drop (length start) p),
       tmpdirname = (\<lambda>n. ''/tmp/tmp'' @ replicate n CHR ''x''),
       exec_PROMPT = (\<lambda>source. Inl ExecError),
       accepts = (\<lambda>c kwargs. True),
       repr = (\<lambda>v. ''<value>'') \<rparr>\<close>

section \<open>Properties\<close>

text \<open>
  The specification names the failures by kind; the source raises \<^verbatim>\<open>ValueError\<close> at each
  of them, and the model keeps the message, which tells them apart:
  \<^item> ConflictingFieldError: lines 36 and 94, the messages that start with
    \<^verbatim>\<open>Both\<close> and \<^verbatim>\<open>Only one of\<close>;
  \<^item> UnsupportedFormatError: line 46 (no message), line 151
    (\<^verbatim>\<open>Got unsupported file type\<close> and the suffix) and line 160;
  \<^item> UnsupportedExamplesFormatError and InvalidExamplesTypeError: lines 63 and 68;
  \<^item> UnsupportedStrategyError: line 81, \<^verbatim>\<open>Unsupported output parser\<close> and the tag;
  \<^item> UnknownPromptTypeError: line 27 (no message);
  \<^item> NotFoundError: line 164, \<^verbatim>\<open>Could not find file at\<close> and the URL.
\<close>

subsection \<open>Dictionary lemmas\<close>

lemma lookup_delete: "map_of (AList.delete k d) x = (if x = k then None else map_of d x)"
  by (simp add: AList.delete_conv')

lemma lookup_update: "map_of (AList.update k v d) x = (if x = k then Some v else map_of d x)"
  by (simp add: AList.update_conv')

lemma delete_absent: "map_of d k = None \<Longrightarrow> AList.delete k d = d"
  by (simp add: map_of_eq_None_iff)

subsection \<open>What each materializer leaves alone\<close>

lemma load_template_frame:
  "k \<noteq> V \<Longrightarrow> k \<noteq> V @ ''_path'' \<Longrightarrow>
   map_of (fst (p_load_template env V config)) k = map_of config k"
  by (simp add: p_load_template_def Let_def lookup_update lookup_delete
           split: option.splits sum.splits)

lemma dict_in_frame:
  "k \<noteq> V \<Longrightarrow> k \<noteq> V @ ''_path'' \<Longrightarrow>
   dict_in k (fst (p_load_template env V config)) = dict_in k config"
  by (simp add: dict_in_def load_template_frame)

lemma load_output_parser_frame:
  "k \<noteq> ''output_parser'' \<Longrightarrow> map_of (fst (p_load_output_parser env config)) k = map_of config k"
  by (simp add: p_load_output_parser_def lookup_update
        split: option.splits pyval.splits sum.splits)

lemma load_examples_frame:
  "k \<noteq> ''examples'' \<Longrightarrow> map_of (fst (p_load_examples env config)) k = map_of config k"
  by (simp add: p_load_examples_def lookup_update split: option.splits pyval.splits)

lemma load_template_conflict:
  "dict_in (V @ ''_path'') config \<Longrightarrow> dict_in V config \<Longrightarrow>
   p_load_template env V config
     = (config, Some (ValueError (''Both `'' @ V @ ''_path` and `'' @ V @ ''` cannot be provided.'')))"
  by (auto simp: p_load_template_def dict_in_def)

lemma load_template_no_path_left:
  "snd (p_load_template env V config) = None \<Longrightarrow>
   \<not> dict_in (V @ ''_path'') (fst (p_load_template env V config))"
  by (auto simp: p_load_template_def Let_def dict_in_def lookup_update lookup_delete
           split: option.splits sum.splits if_splits)

subsection \<open>The class of a constructed object\<close>

lemma construct_class: "construct env c kw = Inr obj \<Longrightarrow> obj = PObject c kw"
  by (auto simp: construct_def split: if_splits)

lemma p_load_prompt_class:
  "p_load_prompt env config = Inr obj \<Longrightarrow> \<exists>kw. obj = PObject PromptTemplate kw"
  by (auto simp: p_load_prompt_def split: prod.splits option.splits dest: construct_class)

lemma p_load_few_shot_prompt_class:
  "p_load_few_shot_prompt env n config = Inr obj \<Longrightarrow> \<exists>kw. obj = PObject FewShotPromptTemplate kw"
  apply (subst (asm) p_load_few_shot_prompt.simps)
  apply (auto split: prod.splits option.splits sum.splits dest: construct_class)
  done

subsection \<open>A field and its reference twin\<close>

text \<open>
  Claim C1, as amended. \<^verbatim>\<open>_load_template\<close> called for \<open>V\<close> on a dictionary that holds
  both \<open>V\<close> and \<open>V_path\<close> raises the \<^verbatim>\<open>ValueError\<close> of line 36 and leaves the dictionary
  as it was, whatever else it holds. Hence loading a \<open>prompt\<close> configuration with both
  \<open>template\<close> and \<open>template_path\<close>, or a \<open>few_shot\<close> configuration with both \<open>suffix\<close> and
  \<open>suffix_path\<close>, fails with that error; a few-shot configuration with both \<open>prefix\<close> and
  \<open>prefix_path\<close> fails with it once the suffix has been resolved, and one with both
  \<open>example_prompt\<close> and \<open>example_prompt_path\<close> fails with the error of line 94 once the
  suffix and the prefix have been resolved. Whenever \<^verbatim>\<open>_load_template\<close> returns, the
  dictionary does not hold \<open>V_path\<close>. A pair that the selected variant does not resolve is
  not checked by the loader: a \<open>prompt\<close> configuration with neither \<open>template_path\<close> nor
  \<open>output_parser\<close> is handed to the \<open>PromptTemplate\<close> constructor as it is, without the
  tag, whatever other fields it holds, and the outcome is the constructor's.
\<close>

theorem conflicting_field_rejected:
  "(dict_in (V @ ''_path'') config \<and> dict_in V config
      \<longrightarrow> p_load_template env V config
            = (config, Some (ValueError
                 (''Both `'' @ V @ ''_path` and `'' @ V @ ''` cannot be provided.''))))
   \<and> (dict_in ''template_path'' config \<and> dict_in ''template'' config
        \<and> (map_of config ''_type'' = None \<or> map_of config ''_type'' = Some (PStr ''prompt''))
      \<longrightarrow> load_prompt_from_config env n (PDict config)
            = Inl (ValueError ''Both `template_path` and `template` cannot be provided.''))
   \<and> (dict_in ''suffix_path'' config \<and> dict_in ''suffix'' config
        \<and> map_of config ''_type'' = Some (PStr ''few_shot'')
      \<longrightarrow> load_prompt_from_config env n (PDict config)
            = Inl (ValueError ''Both `suffix_path` and `suffix` cannot be provided.''))
   \<and> (dict_in ''prefix_path'' config \<and> dict_in ''prefix'' config
        \<and> snd (p_load_template env ''suffix'' config) = None
      \<longrightarrow> p_load_few_shot_prompt env n config
            = Inl (ValueError ''Both `prefix_path` and `prefix` cannot be provided.''))
   \<and> (dict_in ''example_prompt_path'' config \<and> dict_in ''example_prompt'' config
        \<and> snd (p_load_template env ''suffix'' config) = None
        \<and> snd (p_load_template env ''prefix'' (fst (p_load_template env ''suffix'' config))) = None
      \<longrightarrow> p_load_few_shot_prompt env n config
            = Inl (ValueError
                ''Only one of example_prompt and example_prompt_path should be specified.''))
   \<and> (snd (p_load_template env V config) = None
      \<longrightarrow> \<not> dict_in (V @ ''_path'') (fst (p_load_template env V config)))
   \<and> ((map_of config ''_type'' = None \<or> map_of config ''_type'' = Some (PStr ''prompt''))
        \<and> \<not> dict_in ''template_path'' config \<and> \<not> dict_in ''output_parser'' config
      \<longrightarrow> load_prompt_from_config env n (PDict config)
            = construct env PromptTemplate (AList.delete ''_type'' config))"
proof (intro conjI impI)
  assume "dict_in (V @ ''_path'') config \<and> dict_in V config"
  then show "p_load_template env V config
            = (config, Some (ValueError
                 (''Both `'' @ V @ ''_path` and `'' @ V @ ''` cannot be provided.'')))"
    by (simp add: load_template_conflict)
next
  assume h: "dict_in ''template_path'' config \<and> dict_in ''template'' config
        \<and> (map_of config ''_type'' = None \<or> map_of config ''_type'' = Some (PStr ''prompt''))"
  then have "dict_in (''template'' @ ''_path'') (AList.delete ''_type'' config)"
    and "dict_in ''template'' (AList.delete ''_type'' config)"
    by (simp_all add: dict_in_def lookup_delete)
  then have "p_load_template env ''template'' (AList.delete ''_type'' config)
      = (AList.delete ''_type'' config,
         Some (ValueError (''Both `'' @ ''template'' @ ''_path` and `'' @ ''template''
                 @ ''` cannot be provided.'')))"
    by (rule load_template_conflict)
  moreover have "load_prompt_from_config env n (PDict config)
      = p_load_prompt env (AList.delete ''_type'' config)"
    using h by auto
  ultimately show "load_prompt_from_config env n (PDict config)
            = Inl (ValueError ''Both `template_path` and `template` cannot be provided.'')"
    by (simp add: p_load_prompt_def)
next
  assume h: "dict_in ''suffix_path'' config \<and> dict_in ''suffix'' config
        \<and> map_of config ''_type'' = Some (PStr ''few_shot'')"
  then have "dict_in (''suffix'' @ ''_path'') (AList.delete ''_type'' config)"
    and "dict_in ''suffix'' (AList.delete ''_type'' config)"
    by (simp_all add: dict_in_def lookup_delete)
  then have "p_load_template env ''suffix'' (AList.delete ''_type'' config)
      = (AList.delete ''_type'' config,
         Some (ValueError (''Both `'' @ ''suffix'' @ ''_path` and `'' @ ''suffix''
                 @ ''` cannot be provided.'')))"
    by (rule load_template_conflict)
  moreover have "load_prompt_from_config env n (PDict config)
      = p_load_few_shot_prompt env n (AList.delete ''_type'' config)"
    using h by simp
  ultimately show "load_prompt_from_config env n (PDict config)
            = Inl (ValueError ''Both `suffix_path` and `suffix` cannot be provided.'')"
    by simp
next
  assume h: "dict_in ''prefix_path'' config \<and> dict_in ''prefix'' config
        \<and> snd (p_load_template env ''suffix'' config) = None"
  obtain c1 where c1: "p_load_template env ''suffix'' config = (c1, None)"
    using h by (cases "p_load_template env ''suffix'' config") simp
  have "dict_in (''prefix'' @ ''_path'') c1" and "dict_in ''prefix'' c1"
    using h dict_in_frame [of "''prefix_path''" "''suffix''" env config]
            dict_in_frame [of "''prefix''" "''suffix''" env config] c1
    by simp_all
  then have "p_load_template env ''prefix'' c1
      = (c1, Some (ValueError (''Both `'' @ ''prefix'' @ ''_path` and `'' @ ''prefix''
                     @ ''` cannot be provided.'')))"
    by (rule load_template_conflict)
  with c1 show "p_load_few_shot_prompt env n config
            = Inl (ValueError ''Both `prefix_path` and `prefix` cannot be provided.'')"
    by simp
next
  assume h: "dict_in ''example_prompt_path'' config \<and> dict_in ''example_prompt'' config
        \<and> snd (p_load_template env ''suffix'' config) = None
        \<and> snd (p_load_template env ''prefix'' (fst (p_load_template env ''suffix'' config))) = None"
  obtain c1 where c1: "p_load_template env ''suffix'' config = (c1, None)"
    using h by (cases "p_load_template env ''suffix'' config") simp
  obtain c2 where c2: "p_load_template env ''prefix'' c1 = (c2, None)"
    using h c1 by (cases "p_load_template env ''prefix'' c1") simp
  have "dict_in ''example_prompt_path'' c1" and "dict_in ''example_prompt'' c1"
    using h dict_in_frame [of "''example_prompt_path''" "''suffix''" env config]
            dict_in_frame [of "''example_prompt''" "''suffix''" env config] c1
    by simp_all
  then have "dict_in ''example_prompt_path'' c2" and e: "dict_in ''example_prompt'' c2"
    using dict_in_frame [of "''example_prompt_path''" "''prefix''" env c1]
          dict_in_frame [of "''example_prompt''" "''prefix''" env c1] c2
    by simp_all
  then obtain path where "map_of c2 ''example_prompt_path'' = Some path"
    by (auto simp: dict_in_def)
  with c1 c2 e show "p_load_few_shot_prompt env n config
            = Inl (ValueError
                ''Only one of example_prompt and example_prompt_path should be specified.'')"
    by simp
next
  assume "snd (p_load_template env V config) = None"
  then show "\<not> dict_in (V @ ''_path'') (fst (p_load_template env V config))"
    by (rule load_template_no_path_left)
next
  assume h: "(map_of config ''_type'' = None \<or> map_of config ''_type'' = Some (PStr ''prompt''))
        \<and> \<not> dict_in ''template_path'' config \<and> \<not> dict_in ''output_parser'' config"
  have t: "p_load_template env ''template'' (AList.delete ''_type'' config)
      = (AList.delete ''_type'' config, None)"
    using h by (simp add: p_load_template_def dict_in_def lookup_delete)
  have o: "p_load_output_parser env (AList.delete ''_type'' config)
      = (AList.delete ''_type'' config, None)"
    using h by (simp add: p_load_output_parser_def dict_in_def lookup_delete)
  have "load_prompt_from_config env n (PDict config)
      = p_load_prompt env (AList.delete ''_type'' config)"
    using h by auto
  with t o show "load_prompt_from_config env n (PDict config)
            = construct env PromptTemplate (AList.delete ''_type'' config)"
    by (simp add: p_load_prompt_def)
qed

theorem conflicting_field_rejected_witness:
  "p_load_template env0 ''template''
       [(''template'', PStr ''Hi''), (''template_path'', PStr ''joke.txt'')]
     = ([(''template'', PStr ''Hi''), (''template_path'', PStr ''joke.txt'')],
        Some (ValueError ''Both `template_path` and `template` cannot be provided.''))
   \<and> load_prompt_from_config env0 0
       (PDict [(''template'', PStr ''Hi''), (''template_path'', PStr ''joke.txt'')])
     = Inl (ValueError ''Both `template_path` and `template` cannot be provided.'')
   \<and> load_prompt_from_config env0 0
       (PDict [(''_type'', PStr ''few_shot''), (''suffix'', PStr ''S''),
               (''suffix_path'', PStr ''joke.txt'')])
     = Inl (ValueError ''Both `suffix_path` and `suffix` cannot be provided.'')
   \<and> p_load_few_shot_prompt env0 0
       [(''suffix'', PStr ''S''), (''prefix'', PStr ''P''), (''prefix_path'', PStr ''joke.txt'')]
     = Inl (ValueError ''Both `prefix_path` and `prefix` cannot be provided.'')
   \<and> p_load_few_shot_prompt env0 0
       [(''suffix_path'', PStr ''joke.txt''), (''prefix'', PStr ''P''),
        (''example_prompt'', PDict [(''template'', PStr ''Hi'')]),
        (''example_prompt_path'', PStr ''example.yaml'')]
     = Inl (ValueError ''Only one of example_prompt and example_prompt_path should be specified.'')
   \<and> \<not> dict_in ''template_path''
         (fst (p_load_template env0 ''template'' [(''template_path'', PStr ''joke.txt'')]))
   \<and> load_prompt_from_config env0 0
       (PDict [(''_type'', PStr ''prompt''), (''template'', PStr ''Hi''),
               (''prefix'', PStr ''P''), (''prefix_path'', PStr ''joke.txt'')])
     = construct env0 PromptTemplate
         [(''template'', PStr ''Hi''), (''prefix'', PStr ''P''),
          (''prefix_path'', PStr ''joke.txt'')]"
  using conflicting_field_rejected [where V = "''template''" and env = env0
              and config = "[(''template'', PStr ''Hi''), (''template_path'', PStr ''joke.txt'')]"
              and n = 0]
        conflicting_field_rejected [where V = "''suffix''" and env = env0 and n = 0
              and config = "[(''_type'', PStr ''few_shot''), (''suffix'', PStr ''S''),
                             (''suffix_path'', PStr ''joke.txt'')]"]
        conflicting_field_rejected [where V = "''prefix''" and env = env0 and n = 0
              and config = "[(''suffix'', PStr ''S''), (''prefix'', PStr ''P''),
                             (''prefix_path'', PStr ''joke.txt'')]"]
        conflicting_field_rejected [where V = "''suffix''" and env = env0 and n = 0
              and config = "[(''suffix_path'', PStr ''joke.txt''), (''prefix'', PStr ''P''),
                             (''example_prompt'', PDict [(''template'', PStr ''Hi'')]),
                             (''example_prompt_path'', PStr ''example.yaml'')]"]
        conflicting_field_rejected [where V = "''template''" and env = env0 and n = 0
              and config = "[(''template_path'', PStr ''joke.txt'')]"]
        conflicting_field_rejected [where V = "''template''" and env = env0 and n = 0
              and config = "[(''_type'', PStr ''prompt''), (''template'', PStr ''Hi''),
                             (''prefix'', PStr ''P''), (''prefix_path'', PStr ''joke.txt'')]"]
  by (simp add: p_load_template_def dict_in_def Path_def path_suffix_def path_name_def env0_def)

text \<open>
  The claim as the specification states it fails. A few-shot configuration with both
  \<open>prefix\<close> and \<open>prefix_path\<close> whose \<open>suffix_path\<close> names a file that cannot be opened fails
  with that \<open>OSError\<close>, not with the conflict: the suffix is resolved first (line 89), and
  the failure comes before any class is called.
\<close>

theorem conflicting_field_not_always_reported:
  "load_prompt_from_config env0 1
      (PDict [(''_type'', PStr ''few_shot''), (''suffix_path'', PStr ''missing.txt''),
              (''prefix'', PStr ''P''), (''prefix_path'', PStr ''joke.txt''),
              (''example_prompt'', PDict [(''template'', PStr ''Hi'')]),
              (''examples'', PList [])])
     = Inl (OSError ''missing.txt'')"
  by (simp add: p_load_template_def dict_in_def Path_def path_suffix_def path_name_def env0_def)

subsection \<open>The type tag and the keyword arguments\<close>

lemma p_load_prompt_kwargs:
  assumes "p_load_prompt env config = Inr (PObject c kw)" and "map_of config ''_type'' = None"
  shows "map_of kw ''_type'' = None"
proof -
  obtain c1 where c1: "p_load_template env ''template'' config = (c1, None)"
    using assms(1) by (auto simp: p_load_prompt_def split: prod.splits option.splits)
  obtain c2 where c2: "p_load_output_parser env c1 = (c2, None)"
    using assms(1) c1 by (auto simp: p_load_prompt_def split: prod.splits option.splits)
  have "kw = c2"
    using assms(1) c1 c2 by (auto simp: p_load_prompt_def dest: construct_class)
  moreover have "map_of c1 ''_type'' = None"
    using load_template_frame [of "''_type''" "''template''" env config] c1 assms(2) by simp
  then have "map_of c2 ''_type'' = None"
    using load_output_parser_frame [of "''_type''" env c1] c2 by simp
  ultimately show ?thesis by simp
qed

lemma few_shot_tail_kwargs:
  assumes "(case p_load_examples env c3 of
        (c4, Some e) \<Rightarrow> Inl e
      | (c4, None) \<Rightarrow>
     (case p_load_output_parser env c4 of
        (c5, Some e) \<Rightarrow> Inl e
      | (c5, None) \<Rightarrow> construct env FewShotPromptTemplate c5)) = Inr (PObject c kw)"
    and "map_of c3 ''_type'' = None"
  shows "map_of kw ''_type'' = None"
proof -
  obtain c4 where c4: "p_load_examples env c3 = (c4, None)"
    using assms(1) by (auto split: prod.splits option.splits)
  obtain c5 where c5: "p_load_output_parser env c4 = (c5, None)"
    using assms(1) c4 by (auto split: prod.splits option.splits)
  have "kw = c5" using assms(1) c4 c5 by (auto dest: construct_class)
  moreover have "map_of c5 ''_type'' = None"
    using load_examples_frame [of "''_type''" env c3] c4 assms(2)
          load_output_parser_frame [of "''_type''" env c4] c5 by simp
  ultimately show ?thesis by simp
qed

lemma p_load_few_shot_prompt_kwargs:
  assumes "p_load_few_shot_prompt env n config = Inr (PObject c kw)"
    and "map_of config ''_type'' = None"
  shows "map_of kw ''_type'' = None"
proof -
  obtain c1 where c1: "p_load_template env ''suffix'' config = (c1, None)"
    using assms(1) by (auto split: prod.splits option.splits)
  obtain c2 where c2: "p_load_template env ''prefix'' c1 = (c2, None)"
    using assms(1) c1 by (auto split: prod.splits option.splits)
  have t2: "map_of c2 ''_type'' = None"
    using load_template_frame [of "''_type''" "''suffix''" env config] c1 assms(2)
          load_template_frame [of "''_type''" "''prefix''" env c1] c2 by simp
  have u: "map_of (AList.update ''example_prompt'' p c2) ''_type'' = None"
          "map_of (AList.update ''example_prompt'' p (AList.delete ''example_prompt_path'' c2))
             ''_type'' = None" for p
    using t2 by (simp_all add: lookup_update lookup_delete)
  show ?thesis
    using assms(1) c1 c2 u
    by (auto simp del: load_prompt_from_config.simps load_prompt.simps
          split: option.splits sum.splits nat.splits if_splits
          dest!: few_shot_tail_kwargs)
qed

text \<open>
  At the top level the tag does not reach a constructor: \<^verbatim>\<open>load_prompt_from_config\<close> pops
  \<open>_type\<close> (line 21) and no later step sets it, so the object it constructs never has
  \<open>_type\<close> among its keyword arguments.
\<close>

theorem top_level_tag_never_passed:
  "load_prompt_from_config env n (PDict config) = Inr (PObject c kw) \<Longrightarrow> \<not> dict_in ''_type'' kw"
proof -
  assume h: "load_prompt_from_config env n (PDict config) = Inr (PObject c kw)"
  have d: "map_of (AList.delete ''_type'' config) ''_type'' = None"
    by (simp add: lookup_delete)
  from h have "p_load_prompt env (AList.delete ''_type'' config) = Inr (PObject c kw)
      \<or> p_load_few_shot_prompt env n (AList.delete ''_type'' config) = Inr (PObject c kw)"
    by (auto simp: Let_def split: if_splits)
  then show ?thesis
    using d p_load_prompt_kwargs p_load_few_shot_prompt_kwargs by (auto simp: dict_in_def)
qed

theorem top_level_tag_never_passed_witness:
  "load_prompt_from_config env0 0
      (PDict [(''_type'', PStr ''prompt''), (''template_path'', PStr ''joke.txt'')])
     = Inr (PObject PromptTemplate [(''template'', PStr ''Tell me a joke.'')])
   \<and> \<not> dict_in ''_type'' [(''template'', PStr ''Tell me a joke.'')]"
  using top_level_tag_never_passed
          [where env = env0 and n = 0 and c = PromptTemplate
             and config = "[(''_type'', PStr ''prompt''), (''template_path'', PStr ''joke.txt'')]"
             and kw = "[(''template'', PStr ''Tell me a joke.'')]"]
  by (simp add: p_load_prompt_def p_load_template_def p_load_output_parser_def construct_def
        dict_in_def Path_def path_suffix_def path_name_def env0_def)

text \<open>
  Claim C2 at its failing input. The nested tag is read by subscript (line 77) and is not
  removed: \<^verbatim>\<open>RegexParser(**_config)\<close> (line 79) receives \<open>_type\<close> among its keyword
  arguments, while the top-level tag of the same configuration has been popped.
\<close>

theorem nested_type_tag_reaches_constructor:
  "load_prompt_from_config env0 0
      (PDict [(''_type'', PStr ''prompt''), (''template'', PStr ''Hi''),
              (''output_parser'',
                 PDict [(''_type'', PStr ''regex_parser''), (''regex'', PStr ''(.*)''),
                        (''output_keys'', PList [PStr ''answer''])])])
     = Inr (PObject PromptTemplate
              [(''template'', PStr ''Hi''),
               (''output_parser'',
                  PObject RegexParser
                    [(''_type'', PStr ''regex_parser''), (''regex'', PStr ''(.*)''),
                     (''output_keys'', PList [PStr ''answer''])])])"
  by (simp add: p_load_prompt_def p_load_template_def p_load_output_parser_def construct_def
        env0_def)

subsection \<open>The format of a configuration file\<close>

text \<open>
  Claim C3 at its failing input. \<^verbatim>\<open>_load_prompt_from_file\<close> compares the suffix with
  \<^verbatim>\<open>.json\<close>, \<^verbatim>\<open>.yaml\<close> and \<^verbatim>\<open>.py\<close> only (lines 132 to 138), so a \<^verbatim>\<open>.yml\<close> file is
  refused as an unsupported file type, in every environment and whatever the file holds;
  \<^verbatim>\<open>_load_examples\<close> (line 60) accepts both \<^verbatim>\<open>.yaml\<close> and \<^verbatim>\<open>.yml\<close>.
\<close>

theorem yml_configuration_file_refused:
  "p_load_prompt_from_file env n (PStr ''prompts/simple_prompt.yml'')
     = Inl (ValueError ''Got unsupported file type .yml'')"
  by (simp add: as_path_def path_suffix_def path_name_def)

text \<open>
  The two formats that are read agree: a \<^verbatim>\<open>.json\<close> file and a \<^verbatim>\<open>.yaml\<close> file that decode to the same
  configuration load to the same result, the one \<^verbatim>\<open>load_prompt_from_config\<close> gives for
  that configuration, and a suffix other than \<^verbatim>\<open>.json\<close>, \<^verbatim>\<open>.yaml\<close> and \<^verbatim>\<open>.py\<close> fails
  with the \<^verbatim>\<open>ValueError\<close> of line 151, which names the suffix.
\<close>

theorem json_and_yaml_files_agree:
  "(path_suffix p = ''.json'' \<and> path_suffix q = ''.yaml''
      \<and> files env p = Some jtext \<and> files env q = Some ytext
      \<and> json_load env jtext = Some config \<and> yaml_safe_load env ytext = Some config
     \<longrightarrow> p_load_prompt_from_file env n (PStr p) = p_load_prompt_from_file env n (PStr q)
         \<and> p_load_prompt_from_file env n (PStr p) = load_prompt_from_config env n config)
   \<and> (path_suffix p \<noteq> ''.json'' \<and> path_suffix p \<noteq> ''.yaml'' \<and> path_suffix p \<noteq> ''.py''
     \<longrightarrow> p_load_prompt_from_file env n (PStr p)
           = Inl (ValueError (''Got unsupported file type '' @ path_suffix p)))"
  by (simp add: as_path_def del: load_prompt_from_config.simps)

theorem json_and_yaml_files_agree_witness:
  "p_load_prompt_from_file env0 0 (PStr ''prompt.json'')
     = p_load_prompt_from_file env0 0 (PStr ''prompt.yaml'')
   \<and> p_load_prompt_from_file env0 0 (PStr ''prompt.json'')
     = Inr (PObject PromptTemplate [(''template'', PStr ''Hi'')])
   \<and> p_load_prompt_from_file env0 0 (PStr ''prompt.toml'')
     = Inl (ValueError ''Got unsupported file type .toml'')"
  using json_and_yaml_files_agree
          [where env = env0 and n = 0 and p = "''prompt.json''" and q = "''prompt.yaml''"
             and ytext = "''template: Hi''" and config = "PDict [(''template'', PStr ''Hi'')]"
             and jtext = "the (files env0 ''prompt.json'')"]
        json_and_yaml_files_agree [where env = env0 and n = 0 and p = "''prompt.toml''"]
  by (simp add: p_load_prompt_def p_load_template_def p_load_output_parser_def construct_def
        as_path_def path_suffix_def path_name_def env0_def)

subsection \<open>The field materializer\<close>

text \<open>
  Claim C4. For a field \<open>V\<close> that is not in the dictionary (the other case is the conflict
  of claim C1): when \<open>V_path\<close> holds a path whose suffix is \<^verbatim>\<open>.txt\<close> and the file there
  reads as \<open>body\<close>, \<^verbatim>\<open>_load_template\<close> returns the dictionary with \<open>V_path\<close> removed and
  \<open>V\<close> set to exactly \<open>body\<close>; when the suffix is anything else it raises the bare
  \<^verbatim>\<open>ValueError\<close> of line 46; and when \<open>V_path\<close> is absent it returns the dictionary
  unchanged.
\<close>

theorem load_template_reads_text_file:
  "(map_of config (V @ ''_path'') = Some v \<and> \<not> dict_in V config \<and> Path v = Inr p
      \<and> path_suffix p = ''.txt'' \<and> files env p = Some body
     \<longrightarrow> p_load_template env V config
           = (AList.update V (PStr body) (AList.delete (V @ ''_path'') config), None)
         \<and> map_of (fst (p_load_template env V config)) V = Some (PStr body)
         \<and> map_of (fst (p_load_template env V config)) (V @ ''_path'') = None)
   \<and> (map_of config (V @ ''_path'') = Some v \<and> \<not> dict_in V config \<and> Path v = Inr p
      \<and> path_suffix p \<noteq> ''.txt''
     \<longrightarrow> snd (p_load_template env V config) = Some (ValueError ''''))
   \<and> (map_of config (V @ ''_path'') = None
     \<longrightarrow> p_load_template env V config = (config, None))"
  by (simp add: p_load_template_def lookup_update lookup_delete)

theorem load_template_reads_text_file_witness:
  "p_load_template env0 ''template''
       [(''input_variables'', PList []), (''template_path'', PStr ''joke.txt'')]
     = ([(''input_variables'', PList []), (''template'', PStr ''Tell me a joke.'')], None)
   \<and> snd (p_load_template env0 ''prefix'' [(''prefix_path'', PStr ''joke.md'')])
     = Some (ValueError '''')
   \<and> p_load_template env0 ''suffix'' [(''suffix'', PStr ''S''), (''prefix_path'', PStr ''joke.md'')]
     = ([(''suffix'', PStr ''S''), (''prefix_path'', PStr ''joke.md'')], None)"
  using load_template_reads_text_file
          [where V = "''template''" and env = env0 and v = "PStr ''joke.txt''"
             and p = "''joke.txt''" and body = "''Tell me a joke.''"
             and config = "[(''input_variables'', PList []), (''template_path'', PStr ''joke.txt'')]"]
        load_template_reads_text_file
          [where V = "''prefix''" and env = env0 and v = "PStr ''joke.md''" and p = "''joke.md''"
             and config = "[(''prefix_path'', PStr ''joke.md'')]"]
        load_template_reads_text_file
          [where V = "''suffix''" and env = env0
             and config = "[(''suffix'', PStr ''S''), (''prefix_path'', PStr ''joke.md'')]"]
  by (simp add: dict_in_def Path_def path_suffix_def path_name_def env0_def)

subsection \<open>The dispatch on the type tag\<close>

text \<open>
  Claim C5. \<^verbatim>\<open>load_prompt_from_config\<close> dispatches on \<open>_type\<close>: when the tag is absent or
  is \<open>prompt\<close> the configuration, without the tag, goes to \<^verbatim>\<open>_load_prompt\<close>; when it is
  \<open>few_shot\<close> it goes to \<^verbatim>\<open>_load_few_shot_prompt\<close>; any other value raises the bare
  \<^verbatim>\<open>ValueError\<close> of line 27. What \<^verbatim>\<open>_load_prompt\<close> returns is a \<open>PromptTemplate\<close>
  object, and what \<^verbatim>\<open>_load_few_shot_prompt\<close> returns is a \<open>FewShotPromptTemplate\<close> object.
\<close>

theorem type_tag_dispatch:
  "(map_of config ''_type'' = None \<or> map_of config ''_type'' = Some (PStr ''prompt'')
      \<longrightarrow> load_prompt_from_config env n (PDict config)
            = p_load_prompt env (AList.delete ''_type'' config))
   \<and> (map_of config ''_type'' = Some (PStr ''few_shot'')
      \<longrightarrow> load_prompt_from_config env n (PDict config)
            = p_load_few_shot_prompt env n (AList.delete ''_type'' config))
   \<and> (map_of config ''_type'' = Some t \<and> t \<noteq> PStr ''prompt'' \<and> t \<noteq> PStr ''few_shot''
      \<longrightarrow> load_prompt_from_config env n (PDict config) = Inl (ValueError ''''))
   \<and> (p_load_prompt env config = Inr obj \<longrightarrow> (\<exists>kw. obj = PObject PromptTemplate kw))
   \<and> (p_load_few_shot_prompt env n config = Inr obj
      \<longrightarrow> (\<exists>kw. obj = PObject FewShotPromptTemplate kw))"
proof (intro conjI impI)
  assume "map_of config ''_type'' = None \<or> map_of config ''_type'' = Some (PStr ''prompt'')"
  then show "load_prompt_from_config env n (PDict config)
            = p_load_prompt env (AList.delete ''_type'' config)"
    by auto
next
  assume "map_of config ''_type'' = Some (PStr ''few_shot'')"
  then show "load_prompt_from_config env n (PDict config)
            = p_load_few_shot_prompt env n (AList.delete ''_type'' config)"
    by simp
next
  assume "map_of config ''_type'' = Some t \<and> t \<noteq> PStr ''prompt'' \<and> t \<noteq> PStr ''few_shot''"
  then show "load_prompt_from_config env n (PDict config) = Inl (ValueError '''')"
    by simp
next
  assume "p_load_prompt env config = Inr obj"
  then show "\<exists>kw. obj = PObject PromptTemplate kw" by (rule p_load_prompt_class)
next
  assume "p_load_few_shot_prompt env n config = Inr obj"
  then show "\<exists>kw. obj = PObject FewShotPromptTemplate kw" by (rule p_load_few_shot_prompt_class)
qed

theorem type_tag_dispatch_witness:
  "load_prompt_from_config env0 0 (PDict [(''template'', PStr ''Hi'')])
     = p_load_prompt env0 [(''template'', PStr ''Hi'')]
   \<and> load_prompt_from_config env0 0 (PDict [(''_type'', PStr ''prompt''), (''template'', PStr ''Hi'')])
     = p_load_prompt env0 [(''template'', PStr ''Hi'')]
   \<and> load_prompt_from_config env0 1
        (PDict [(''_type'', PStr ''few_shot''), (''prefix'', PStr ''P''), (''suffix'', PStr ''S''),
                (''example_prompt'', PDict [(''template'', PStr ''Hi'')]), (''examples'', PList [])])
     = p_load_few_shot_prompt env0 1
        [(''prefix'', PStr ''P''), (''suffix'', PStr ''S''),
         (''example_prompt'', PDict [(''template'', PStr ''Hi'')]), (''examples'', PList [])]
   \<and> load_prompt_from_config env0 0 (PDict [(''_type'', PStr ''chat''), (''template'', PStr ''Hi'')])
     = Inl (ValueError '''')
   \<and> p_load_prompt env0 [(''template'', PStr ''Hi'')]
     = Inr (PObject PromptTemplate [(''template'', PStr ''Hi'')])
   \<and> p_load_few_shot_prompt env0 1
        [(''prefix'', PStr ''P''), (''suffix'', PStr ''S''),
         (''example_prompt'', PDict [(''template'', PStr ''Hi'')]), (''examples'', PList [])]
     = Inr (PObject FewShotPromptTemplate
               [(''prefix'', PStr ''P''), (''suffix'', PStr ''S''),
                (''example_prompt'', PObject PromptTemplate [(''template'', PStr ''Hi'')]),
                (''examples'', PList [])])"
  using type_tag_dispatch
          [where config = "[(''template'', PStr ''Hi'')]" and env = env0 and n = 0
             and obj = "PObject PromptTemplate [(''template'', PStr ''Hi'')]"]
        type_tag_dispatch
          [where config = "[(''_type'', PStr ''prompt''), (''template'', PStr ''Hi'')]"
             and env = env0 and n = 0]
        type_tag_dispatch
          [where config = "[(''_type'', PStr ''few_shot''), (''prefix'', PStr ''P''),
                (''suffix'', PStr ''S''),
                (''example_prompt'', PDict [(''template'', PStr ''Hi'')]), (''examples'', PList [])]"
             and env = env0 and n = 1]
        type_tag_dispatch
          [where config = "[(''_type'', PStr ''chat''), (''template'', PStr ''Hi'')]"
             and env = env0 and n = 0 and t = "PStr ''chat''"]
        type_tag_dispatch
          [where config = "[(''prefix'', PStr ''P''), (''suffix'', PStr ''S''),
                (''example_prompt'', PDict [(''template'', PStr ''Hi'')]), (''examples'', PList [])]"
             and env = env0 and n = 1
             and obj = "PObject FewShotPromptTemplate
               [(''prefix'', PStr ''P''), (''suffix'', PStr ''S''),
                (''example_prompt'', PObject PromptTemplate [(''template'', PStr ''Hi'')]),
                (''examples'', PList [])]"]
  by (simp add: p_load_prompt_def p_load_template_def p_load_output_parser_def
        p_load_examples_def construct_def dict_in_def env0_def)

subsection \<open>The output-parser materializer\<close>

text \<open>
  Claim C6 at its failing input. When the tag of the nested dictionary is
  \<open>regex_parser\<close>, \<^verbatim>\<open>_load_output_parser\<close> calls \<^verbatim>\<open>RegexParser(**_config)\<close> (line 79) with
  every field of that dictionary, the tag included, not with the remaining fields: in
  every environment the class is asked to accept the arguments with \<open>_type\<close> among them,
  and the object it returns, which replaces the nested dictionary in place, is built from
  them. The tag is read by subscript on line 77 and is never removed, while the top-level
  dispatch pops its tag on line 21.
\<close>

theorem output_parser_constructed_with_tag:
  "p_load_output_parser env
      [(''output_parser'',
          PDict [(''_type'', PStr ''regex_parser''), (''regex'', PStr ''(.*)''),
                 (''output_keys'', PList [PStr ''answer''])])]
     = (if accepts env RegexParser
             [(''_type'', PStr ''regex_parser''), (''regex'', PStr ''(.*)''),
              (''output_keys'', PList [PStr ''answer''])]
        then ([(''output_parser'',
                 PObject RegexParser
                   [(''_type'', PStr ''regex_parser''), (''regex'', PStr ''(.*)''),
                    (''output_keys'', PList [PStr ''answer''])])], None)
        else ([(''output_parser'',
                 PDict [(''_type'', PStr ''regex_parser''), (''regex'', PStr ''(.*)''),
                        (''output_keys'', PList [PStr ''answer''])])],
              Some (ValidationError RegexParser)))"
  by (simp add: p_load_output_parser_def construct_def)

text \<open>
  The other cases of the materializer: a nested dictionary whose tag is not
  \<open>regex_parser\<close> raises the \<^verbatim>\<open>ValueError\<close> of line 81, whose message ends with the tag,
  and leaves the configuration as it was; an \<open>output_parser\<close> that is absent or
  \<^verbatim>\<open>None\<close> leaves the configuration unchanged.
\<close>

theorem output_parser_other_cases:
  "(map_of config ''output_parser'' = Some (PDict cfg)
        \<and> map_of cfg ''_type'' = Some t \<and> t \<noteq> PStr ''regex_parser''
      \<longrightarrow> p_load_output_parser env config
            = (config, Some (ValueError (''Unsupported output parser '' @ format_val env t))))
   \<and> (map_of config ''output_parser'' = None \<or> map_of config ''output_parser'' = Some PNone
      \<longrightarrow> p_load_output_parser env config = (config, None))"
  by (auto simp: p_load_output_parser_def)

theorem output_parser_other_cases_witness:
  "p_load_output_parser env0
       [(''output_parser'', PDict [(''regex'', PStr ''(.*)''), (''_type'', PStr ''json_parser'')])]
     = ([(''output_parser'', PDict [(''regex'', PStr ''(.*)''), (''_type'', PStr ''json_parser'')])],
        Some (ValueError ''Unsupported output parser json_parser''))
   \<and> p_load_output_parser env0 [(''template'', PStr ''Hi'')] = ([(''template'', PStr ''Hi'')], None)
   \<and> p_load_output_parser env0 [(''output_parser'', PNone)] = ([(''output_parser'', PNone)], None)"
  using output_parser_other_cases [where env = env0
              and config = "[(''output_parser'',
                   PDict [(''regex'', PStr ''(.*)''), (''_type'', PStr ''json_parser'')])]"
              and cfg = "[(''regex'', PStr ''(.*)''), (''_type'', PStr ''json_parser'')]"
              and t = "PStr ''json_parser''"]
        output_parser_other_cases [where env = env0 and config = "[(''template'', PStr ''Hi'')]"]
        output_parser_other_cases [where env = env0 and config = "[(''output_parser'', PNone)]"]
  by (simp add: format_val_def)

subsection \<open>The examples materializer\<close>

lemma endswith_iff: "endswith s p \<longleftrightarrow> (\<exists>pre. s = pre @ p)"
proof
  assume "endswith s p"
  then have "s = take (length s - length p) s @ p"
    by (metis append_take_drop_id endswith_def)
  then show "\<exists>pre. s = pre @ p" ..
next
  assume "\<exists>pre. s = pre @ p"
  then show "endswith s p" by (auto simp: endswith_def)
qed

lemma yaml_not_json: "endswith s ''.yaml'' \<or> endswith s ''.yml'' \<Longrightarrow> \<not> endswith s ''.json''"
proof
  assume y: "endswith s ''.yaml'' \<or> endswith s ''.yml''" and j: "endswith s ''.json''"
  from j obtain a where a: "s = a @ ''.json''" by (auto simp: endswith_iff)
  then have "last s = CHR ''n''" by simp
  moreover from y have "last s = CHR ''l''" by (auto simp: endswith_iff)
  ultimately show False by simp
qed

text \<open>
  Claim C7, as amended. A list passes through unchanged. A string that names a file that
  can be opened is decoded by its ending: \<^verbatim>\<open>.json\<close> with \<^verbatim>\<open>json.load\<close>, \<^verbatim>\<open>.yaml\<close> or
  \<^verbatim>\<open>.yml\<close> with \<^verbatim>\<open>yaml.safe_load\<close>, and the decoded value replaces the field; with any
  other ending the call raises the \<^verbatim>\<open>ValueError\<close> of line 63. A value that is neither a
  list nor a string raises the \<^verbatim>\<open>ValueError\<close> of line 68.
\<close>

theorem load_examples_cases:
  "(map_of config ''examples'' = Some (PList xs)
      \<longrightarrow> p_load_examples env config = (config, None))
   \<and> (map_of config ''examples'' = Some (PStr s) \<and> files env s = Some body
        \<and> endswith s ''.json'' \<and> json_load env body = Some examples
      \<longrightarrow> p_load_examples env config = (AList.update ''examples'' examples config, None))
   \<and> (map_of config ''examples'' = Some (PStr s) \<and> files env s = Some body
        \<and> (endswith s ''.yaml'' \<or> endswith s ''.yml'') \<and> yaml_safe_load env body = Some examples
      \<longrightarrow> p_load_examples env config = (AList.update ''examples'' examples config, None))
   \<and> (map_of config ''examples'' = Some (PStr s) \<and> files env s = Some body
        \<and> \<not> endswith s ''.json'' \<and> \<not> endswith s ''.yaml'' \<and> \<not> endswith s ''.yml''
      \<longrightarrow> p_load_examples env config
            = (config, Some (ValueError
                 ''Invalid file format. Only json or yaml formats are supported.'')))
   \<and> (map_of config ''examples'' = Some v \<and> (\<forall>ys. v \<noteq> PList ys) \<and> (\<forall>t. v \<noteq> PStr t)
      \<longrightarrow> p_load_examples env config
            = (config, Some (ValueError
                 ''Invalid examples format. Only list or string are supported.'')))"
proof (intro conjI impI)
  assume "map_of config ''examples'' = Some (PList xs)"
  then show "p_load_examples env config = (config, None)"
    by (simp add: p_load_examples_def)
next
  assume "map_of config ''examples'' = Some (PStr s) \<and> files env s = Some body
        \<and> endswith s ''.json'' \<and> json_load env body = Some examples"
  then show "p_load_examples env config = (AList.update ''examples'' examples config, None)"
    by (simp add: p_load_examples_def)
next
  assume h: "map_of config ''examples'' = Some (PStr s) \<and> files env s = Some body
        \<and> (endswith s ''.yaml'' \<or> endswith s ''.yml'') \<and> yaml_safe_load env body = Some examples"
  then have "\<not> endswith s ''.json''" by (simp add: yaml_not_json)
  with h show "p_load_examples env config = (AList.update ''examples'' examples config, None)"
    by (simp add: p_load_examples_def)
next
  assume "map_of config ''examples'' = Some (PStr s) \<and> files env s = Some body
        \<and> \<not> endswith s ''.json'' \<and> \<not> endswith s ''.yaml'' \<and> \<not> endswith s ''.yml''"
  then show "p_load_examples env config
            = (config, Some (ValueError
                 ''Invalid file format. Only json or yaml formats are supported.''))"
    by (simp add: p_load_examples_def)
next
  assume "map_of config ''examples'' = Some v \<and> (\<forall>ys. v \<noteq> PList ys) \<and> (\<forall>t. v \<noteq> PStr t)"
  then show "p_load_examples env config
            = (config, Some (ValueError
                 ''Invalid examples format. Only list or string are supported.''))"
    by (cases v) (simp_all add: p_load_examples_def)
qed

theorem load_examples_cases_witness:
  "p_load_examples env0 [(''examples'', PList [PDict [(''q'', PStr ''a'')]])]
     = ([(''examples'', PList [PDict [(''q'', PStr ''a'')]])], None)
   \<and> p_load_examples env0 [(''examples'', PStr ''examples.json''), (''prefix'', PStr ''P'')]
     = ([(''examples'', PList [PInt 1, PInt 2]), (''prefix'', PStr ''P'')], None)
   \<and> p_load_examples env0 [(''examples'', PStr ''examples.yml'')]
     = ([(''examples'', PList [PInt 3])], None)
   \<and> p_load_examples env0 [(''examples'', PStr ''notes.txt'')]
     = ([(''examples'', PStr ''notes.txt'')],
        Some (ValueError ''Invalid file format. Only json or yaml formats are supported.''))
   \<and> p_load_examples env0 [(''examples'', PInt 7)]
     = ([(''examples'', PInt 7)],
        Some (ValueError ''Invalid examples format. Only list or string are supported.''))"
  using load_examples_cases
          [where config = "[(''examples'', PList [PDict [(''q'', PStr ''a'')]])]"
             and xs = "[PDict [(''q'', PStr ''a'')]]" and env = env0]
        load_examples_cases
          [where config = "[(''examples'', PStr ''examples.json''), (''prefix'', PStr ''P'')]"
             and s = "''examples.json''" and env = env0 and body = "''[1, 2]''"
             and examples = "PList [PInt 1, PInt 2]"]
        load_examples_cases
          [where config = "[(''examples'', PStr ''examples.yml'')]"
             and s = "''examples.yml''" and env = env0 and body = "''- 3''"
             and examples = "PList [PInt 3]"]
        load_examples_cases
          [where config = "[(''examples'', PStr ''notes.txt'')]"
             and s = "''notes.txt''" and env = env0 and body = "''[1, 2]''"]
        load_examples_cases
          [where config = "[(''examples'', PInt 7)]" and env = env0 and v = "PInt 7"]
  by (simp add: env0_def endswith_def)

text \<open>
  The claim as the specification states it fails: the file is opened (line 57) before its
  name is inspected (lines 58 to 65), so a string with an unsupported ending that names no
  file fails with \<open>OSError\<close>, not with the \<^verbatim>\<open>ValueError\<close> of line 63.
\<close>

theorem load_examples_opens_before_it_checks:
  "p_load_examples env0 [(''examples'', PStr ''examples.txt'')]
     = ([(''examples'', PStr ''examples.txt'')], Some (OSError ''examples.txt''))
   \<and> snd (p_load_examples env0 [(''examples'', PStr ''examples.txt'')])
     \<noteq> Some (ValueError ''Invalid file format. Only json or yaml formats are supported.'')"
  by (simp add: p_load_examples_def env0_def)

subsection \<open>The remote resolver\<close>

text \<open>
  Claim C8. The trailing extension is \<^verbatim>\<open>path.split(".")[-1]\<close>. When it is \<^verbatim>\<open>py\<close>,
  \<^verbatim>\<open>json\<close> or \<^verbatim>\<open>yaml\<close>, the outcome of \<^verbatim>\<open>_load_from_hub\<close> is decided by the response at
  the URL \<open>URL_BASE @ path\<close> and no other: a status other than 200 raises the
  \<^verbatim>\<open>ValueError\<close> of line 164, whose message ends with that URL, and a status of 200 hands
  the body, written to a temporary file with the same extension, to
  \<^verbatim>\<open>_load_prompt_from_file\<close>. With any other extension the call raises the
  \<^verbatim>\<open>ValueError\<close> of line 160 in every environment, whatever the network would answer:
  the check of line 159 comes before the request of line 162.
\<close>

theorem load_from_hub_cases:
  "(last (str_split CHR ''.'' path) \<in> {''py'', ''json'', ''yaml''}
      \<and> requests_get env (URL_BASE @ path) = Some (status_code, content) \<and> status_code \<noteq> 200
     \<longrightarrow> p_load_from_hub env n path
           = Inl (ValueError (''Could not find file at '' @ URL_BASE @ path)))
   \<and> (last (str_split CHR ''.'' path) \<in> {''py'', ''json'', ''yaml''}
      \<and> requests_get env (URL_BASE @ path) = Some (200, content)
     \<longrightarrow> p_load_from_hub env n path
           = p_load_prompt_from_file
               (env\<lparr>files := (files env)
                  (tmpdirname env n @ ''/prompt.'' @ last (str_split CHR ''.'' path) \<mapsto> content)\<rparr>)
               n (PStr (tmpdirname env n @ ''/prompt.'' @ last (str_split CHR ''.'' path))))
   \<and> (last (str_split CHR ''.'' path) \<notin> {''py'', ''json'', ''yaml''}
     \<longrightarrow> p_load_from_hub env n path = Inl (ValueError ''Unsupported file type.''))"
  by (simp add: Let_def del: p_load_prompt_from_file.simps)

theorem load_from_hub_cases_witness:
  "p_load_from_hub env0 0 ''missing/prompt.json''
     = Inl (ValueError (''Could not find file at '' @ URL_BASE @ ''missing/prompt.json''))
   \<and> p_load_from_hub env0 0 ''hello/prompt.yaml''
     = Inr (PObject PromptTemplate [(''template'', PStr ''Hi'')])
   \<and> p_load_from_hub env0 0 ''hello/prompt.txt'' = Inl (ValueError ''Unsupported file type.'')"
  using load_from_hub_cases
          [where path = "''missing/prompt.json''" and env = env0 and n = 0
             and status_code = 404 and content = "''404: Not Found''"]
        load_from_hub_cases
          [where path = "''hello/prompt.yaml''" and env = env0 and n = 0
             and content = "''template: Hi''"]
        load_from_hub_cases [where path = "''hello/prompt.txt''" and env = env0 and n = 0]
  by (simp add: p_load_prompt_def p_load_template_def p_load_output_parser_def construct_def
        as_path_def path_suffix_def path_name_def env0_def URL_BASE_def)

subsection \<open>The field materializer fails after it has removed the reference\<close>

text \<open>
  Claim C9. When \<^verbatim>\<open>_load_template\<close> fails because \<open>V_path\<close> names a file whose extension is
  not \<^verbatim>\<open>.txt\<close>, the dictionary has already been changed: \<open>V_path\<close> has been popped (line 40)
  and \<open>V\<close> has not been set (line 48 is not reached), so the caller's dictionary is not the
  one it passed in.
\<close>

theorem load_template_failure_not_atomic:
  assumes "map_of config (V @ ''_path'') = Some v" and "\<not> dict_in V config"
    and "Path v = Inr p" and "path_suffix p \<noteq> ''.txt''"
  shows "p_load_template env V config = (AList.delete (V @ ''_path'') config, Some (ValueError ''''))
       \<and> \<not> dict_in (V @ ''_path'') (fst (p_load_template env V config))
       \<and> \<not> dict_in V (fst (p_load_template env V config))
       \<and> fst (p_load_template env V config) \<noteq> config"
proof -
  have eq: "p_load_template env V config = (AList.delete (V @ ''_path'') config, Some (ValueError ''''))"
    using assms by (simp add: p_load_template_def)
  have a: "map_of (AList.delete (V @ ''_path'') config) (V @ ''_path'') = None"
    by (simp add: lookup_delete)
  have b: "map_of (AList.delete (V @ ''_path'') config) V = None"
    using assms(2) by (simp add: lookup_delete dict_in_def)
  have c: "AList.delete (V @ ''_path'') config \<noteq> config"
    using a assms(1) by auto
  show ?thesis using eq a b c by (simp add: dict_in_def)
qed

theorem load_template_failure_not_atomic_witness:
  "p_load_template env0 ''template''
       [(''input_variables'', PList []), (''template_path'', PStr ''joke.md'')]
     = ([(''input_variables'', PList [])], Some (ValueError ''''))
   \<and> \<not> dict_in ''template_path'' (fst (p_load_template env0 ''template''
          [(''input_variables'', PList []), (''template_path'', PStr ''joke.md'')]))
   \<and> \<not> dict_in ''template'' (fst (p_load_template env0 ''template''
          [(''input_variables'', PList []), (''template_path'', PStr ''joke.md'')]))
   \<and> fst (p_load_template env0 ''template''
          [(''input_variables'', PList []), (''template_path'', PStr ''joke.md'')])
        \<noteq> [(''input_variables'', PList []), (''template_path'', PStr ''joke.md'')]"
  using load_template_failure_not_atomic
          [of "[(''input_variables'', PList []), (''template_path'', PStr ''joke.md'')]"
              "''template''" "PStr ''joke.md''" "''joke.md''" env0]
  by (simp add: dict_in_def Path_def path_suffix_def path_name_def)

subsection \<open>An output parser without a tag\<close>

text \<open>
  Claim C10. When \<open>output_parser\<close> is a dictionary with no \<open>_type\<close> key,
  \<^verbatim>\<open>_load_output_parser\<close> fails at the subscript of line 77 with \<open>KeyError\<close>, not with the
  \<open>ValueError\<close> of line 81, and so does the load of a prompt configuration that holds it.
  The top-level tag is different: when it is absent the configuration is loaded as a
  \<open>prompt\<close>.
\<close>

theorem output_parser_missing_tag_KeyError:
  "(map_of config ''output_parser'' = Some (PDict cfg) \<and> map_of cfg ''_type'' = None
      \<longrightarrow> p_load_output_parser env config = (config, Some (KeyError ''_type'')))
   \<and> (map_of config ''output_parser'' = Some (PDict cfg) \<and> map_of cfg ''_type'' = None
        \<and> map_of config ''_type'' = None \<and> map_of config ''template_path'' = None
      \<longrightarrow> load_prompt_from_config env n (PDict config) = Inl (KeyError ''_type''))
   \<and> (map_of config ''_type'' = None
      \<longrightarrow> load_prompt_from_config env n (PDict config) = p_load_prompt env config)"
proof (intro conjI impI)
  assume h: "map_of config ''output_parser'' = Some (PDict cfg) \<and> map_of cfg ''_type'' = None"
  then show "p_load_output_parser env config = (config, Some (KeyError ''_type''))"
    by (simp add: p_load_output_parser_def)
next
  assume h: "map_of config ''output_parser'' = Some (PDict cfg) \<and> map_of cfg ''_type'' = None
        \<and> map_of config ''_type'' = None \<and> map_of config ''template_path'' = None"
  then have d: "AList.delete ''_type'' config = config"
    by (simp add: delete_absent)
  have t: "p_load_template env ''template'' config = (config, None)"
    using h by (simp add: p_load_template_def)
  have o: "p_load_output_parser env config = (config, Some (KeyError ''_type''))"
    using h by (simp add: p_load_output_parser_def)
  show "load_prompt_from_config env n (PDict config) = Inl (KeyError ''_type'')"
    using h d t o by (simp add: p_load_prompt_def)
next
  assume h: "map_of config ''_type'' = None"
  then have d: "AList.delete ''_type'' config = config"
    by (simp add: delete_absent)
  show "load_prompt_from_config env n (PDict config) = p_load_prompt env config"
    using h d by simp
qed

theorem output_parser_missing_tag_KeyError_witness:
  "p_load_output_parser env0
       [(''template'', PStr ''Hi''), (''output_parser'', PDict [(''regex'', PStr ''a'')])]
     = ([(''template'', PStr ''Hi''), (''output_parser'', PDict [(''regex'', PStr ''a'')])],
        Some (KeyError ''_type''))
   \<and> load_prompt_from_config env0 0
        (PDict [(''template'', PStr ''Hi''), (''output_parser'', PDict [(''regex'', PStr ''a'')])])
     = Inl (KeyError ''_type'')
   \<and> load_prompt_from_config env0 0
        (PDict [(''template'', PStr ''Hi''), (''output_parser'', PDict [(''regex'', PStr ''a'')])])
     = p_load_prompt env0
         [(''template'', PStr ''Hi''), (''output_parser'', PDict [(''regex'', PStr ''a'')])]"
  using output_parser_missing_tag_KeyError
          [of "[(''template'', PStr ''Hi''), (''output_parser'', PDict [(''regex'', PStr ''a'')])]"
              "[(''regex'', PStr ''a'')]" env0 0]
  by simp

end
